theory Spec2Isabelle
  imports Main
begin

section \<open>Python exceptions with formatted messages\<close>

text \<open>
  A message built by an f-string is a list of pieces: literal text, and the objects that
  are interpolated into it (\<open>Fmt x\<close> stands for the text of \<open>{x}\<close>). An exception raised
  with several positional arguments keeps them in the same way.
\<close>

datatype 'o piece = Lit string | Fmt 'o

datatype 'o error = ValueError "'o piece list" | KeyError "'o piece list"

fun message :: "'o error \<Rightarrow> 'o piece list" where
  "message (ValueError ps) = ps"
| "message (KeyError ps) = ps"

fun is_ValueError :: "'o error \<Rightarrow> bool" where
  "is_ValueError (ValueError _) = True"
| "is_ValueError (KeyError _) = False"

fun is_KeyError :: "'o error \<Rightarrow> bool" where
  "is_KeyError (KeyError _) = True"
| "is_KeyError (ValueError _) = False"

fun interpolated :: "'o piece list \<Rightarrow> 'o list" where
  "interpolated [] = []"
| "interpolated (Lit _ # ps) = interpolated ps"
| "interpolated (Fmt x # ps) = x # interpolated ps"

section \<open>The interchange-format model (the part read by \<open>omlt/gbt/model.py\<close>)\<close>

text \<open>
  \<open>tensor.type.tensor_type.shape.dim\<close> is a list of dimensions, each with a
  \<open>dim_value\<close> that the code tests against \<open>None\<close> before comparing it with zero.
\<close>

record dimension =
  dim_value :: "int option"

record tensor_shape =
  dim :: "dimension list"

record tensor_type_proto =
  shape :: tensor_shape

record type_proto =
  tensor_type :: tensor_type_proto

record value_info =
  name :: string
  type :: type_proto

record graph_proto =
  input :: "value_info list"
  "output" :: "value_info list"

record model_proto =
  graph :: graph_proto

text \<open>The objects that the error messages of this module interpolate.\<close>

datatype shown = GraphField "value_info list" | Tensor value_info

section \<open>\<open>omlt/gbt/model.py\<close>\<close>

text \<open>
  \<open>_tensor_size\<close>: the list comprehension keeps the values of the dimensions whose value
  is not \<open>None\<close> and is positive; exactly one such value is the size, none or several
  raise \<open>ValueError\<close>.
\<close>

definition tensor_size :: "value_info \<Rightarrow> shown error + int" where
  "tensor_size tensor =
     (let tensor_type = tensor_type (type tensor);
          dim_values = map (\<lambda>d. the (dim_value d))
                         (filter (\<lambda>d. dim_value d \<noteq> None \<and> the (dim_value d) > 0)
                            (dim (shape tensor_type)))
      in if length dim_values = 1 then Inr (dim_values ! 0)
         else if dim_values = [] then
           Inl (ValueError [Lit ''Tensor '', Fmt (Tensor tensor),
                            Lit '' has no positive dimensions.''])
         else
           Inl (ValueError [Lit ''Tensor '', Fmt (Tensor tensor),
                            Lit '' has multiple positive dimensions.'']))"

definition model_num_inputs :: "model_proto \<Rightarrow> shown error + int" where
  "model_num_inputs model =
     (let graph = graph model
      in if length (input graph) \<noteq> 1 then
           Inl (ValueError [Lit ''Model graph input field is multi-valued '',
                            Fmt (GraphField (input graph)),
                            Lit ''. A single value is required.''])
         else tensor_size (input graph ! 0))"

definition model_num_outputs :: "model_proto \<Rightarrow> shown error + int" where
  "model_num_outputs model =
     (let graph = graph model
      in if length (output graph) \<noteq> 1 then
           Inl (ValueError [Lit ''Model graph output field is multi-valued '',
                            Fmt (GraphField (output graph)),
                            Lit ''. A single value is required.''])
         else tensor_size (output graph ! 0))"

text \<open>
  \<open>GradientBoostedTreeModel\<close>: the five private attributes set by \<open>__init__\<close>. The scaling
  object and the bounds are \<open>None\<close> by default.
\<close>

record ('s, 'b) GradientBoostedTreeModel =
  private_model :: model_proto
  private_n_inputs :: int
  private_n_outputs :: int
  private_scaling_object :: "'s option"
  private_scaled_input_bounds :: "'b option"

definition init ::
  "model_proto \<Rightarrow> 's option \<Rightarrow> 'b option \<Rightarrow> shown error + ('s, 'b) GradientBoostedTreeModel"
where
  "init onnx_model scaling_object scaled_input_bounds =
     (case model_num_inputs onnx_model of
        Inl e \<Rightarrow> Inl e
      | Inr n_in \<Rightarrow>
          (case model_num_outputs onnx_model of
             Inl e \<Rightarrow> Inl e
           | Inr n_out \<Rightarrow>
               Inr \<lparr>private_model = onnx_model,
                    private_n_inputs = n_in,
                    private_n_outputs = n_out,
                    private_scaling_object = scaling_object,
                    private_scaled_input_bounds = scaled_input_bounds\<rparr>))"

definition onnx_model :: "('s, 'b) GradientBoostedTreeModel \<Rightarrow> model_proto" where
  "onnx_model self = private_model self"

definition n_inputs :: "('s, 'b) GradientBoostedTreeModel \<Rightarrow> int" where
  "n_inputs self = private_n_inputs self"

definition n_outputs :: "('s, 'b) GradientBoostedTreeModel \<Rightarrow> int" where
  "n_outputs self = private_n_outputs self"

definition scaling_object :: "('s, 'b) GradientBoostedTreeModel \<Rightarrow> 's option" where
  "scaling_object self = private_scaling_object self"

definition scaled_input_bounds :: "('s, 'b) GradientBoostedTreeModel \<Rightarrow> 'b option" where
  "scaled_input_bounds self = private_scaled_input_bounds self"

definition set_scaling_object ::
  "('s, 'b) GradientBoostedTreeModel \<Rightarrow> 's option \<Rightarrow> ('s, 'b) GradientBoostedTreeModel"
where
  "set_scaling_object self scaling_object' = self\<lparr>private_scaling_object := scaling_object'\<rparr>"

subsection \<open>Vocabulary of the specification\<close>

text \<open>The dimensions of a tensor, and which of them are positive-valued.\<close>

definition dims :: "value_info \<Rightarrow> dimension list" where
  "dims tensor = dim (shape (tensor_type (type tensor)))"

definition positive_dim :: "dimension \<Rightarrow> bool" where
  "positive_dim d = (case dim_value d of None \<Rightarrow> False | Some v \<Rightarrow> 0 < v)"

definition num_positive :: "value_info \<Rightarrow> nat" where
  "num_positive tensor = length (filter positive_dim (dims tensor))"

text \<open>Example objects used to instantiate the theorems.\<close>

definition mk_tensor :: "string \<Rightarrow> int option list \<Rightarrow> value_info" where
  "mk_tensor nm vs =
     \<lparr>name = nm,
      type = \<lparr>tensor_type = \<lparr>shape = \<lparr>dim = map (\<lambda>v. \<lparr>dim_value = v\<rparr>) vs\<rparr>\<rparr>\<rparr>\<rparr>"

definition mk_model :: "value_info list \<Rightarrow> value_info list \<Rightarrow> model_proto" where
  "mk_model ins outs = \<lparr>graph = \<lparr>input = ins, output = outs\<rparr>\<rparr>"

section \<open>The block container\<close>

text \<open>
  Modelled from the spec: the formulation objects attached to a block (the formulation
  classes are not among the sources; the tests only show a stand-in). A formulation
  supplies its \<open>input_indexes\<close> and \<open>output_indexes\<close>; \<open>label\<close> is what tells one instance
  from another when it is printed in a message.
\<close>

record ('i, 'o) formulation =
  label :: string
  input_indexes :: "'i list"
  output_indexes :: "'o list"

text \<open>
  Modelled from the spec: the modelling variable that a block derives for one index
  (the variable facade is not among the sources).
\<close>

datatype 'k modeling_var = VarFor 'k

text \<open>
  Modelled from the spec: where an index that is entered again stands in an ordered
  mapping. The spec says that the block holds an ordered mapping and does not say which
  place a repeated index takes, so both places are modelled and the functions below take
  the choice as a parameter.
\<close>

datatype repeated_index = KeepsFirstPlace | MovesToEnd

text \<open>
  Modelled from the spec: the ordered mapping from symbols to modelling variables held by
  a block (the block class is not among the sources). A mapping has one entry per key;
  a new key is entered at the end.
\<close>

fun insert_key ::
  "repeated_index \<Rightarrow> 'k \<Rightarrow> 'v \<Rightarrow> ('k \<times> 'v) list \<Rightarrow> ('k \<times> 'v) list"
where
  "insert_key KeepsFirstPlace k v m = (if k \<in> set (map fst m) then m else m @ [(k, v)])"
| "insert_key MovesToEnd k v m = filter (\<lambda>p. fst p \<noteq> k) m @ [(k, v)]"

text \<open>
  Modelled from the spec: the variables derived automatically for a collection of indexes,
  one per index, entered in the order of the collection.
\<close>

definition derive_vars :: "repeated_index \<Rightarrow> 'k list \<Rightarrow> ('k \<times> 'k modeling_var) list" where
  "derive_vars place indexes = foldl (\<lambda>m k. insert_key place k (VarFor k) m) [] indexes"

text \<open>
  Modelled from the spec: iterating an ordered mapping (\<open>list(block.inputs)\<close> in the tests)
  yields its keys in order.
\<close>

definition keys :: "('k \<times> 'v) list \<Rightarrow> 'k list" where
  "keys m = map fst m"

text \<open>
  Modelled from the spec: the block (class \<open>OmltBlockData\<close>, not among the sources). It holds
  the ordered mapping of the input symbols, that of the output symbols, and at most one
  attached formulation.
\<close>

record ('i, 'o) OmltBlockData =
  inputs :: "('i \<times> 'i modeling_var) list"
  outputs :: "('o \<times> 'o modeling_var) list"
  private_formulation :: "('i, 'o) formulation option"

text \<open>Modelled from the spec: a new block, with no symbols and no formulation.\<close>

definition OmltBlock :: "('i, 'o) OmltBlockData" where
  "OmltBlock = \<lparr>inputs = [], outputs = [], private_formulation = None\<rparr>"

text \<open>
  Modelled from the spec: \<open>_setup_inputs_outputs\<close>, the explicit setup of the index
  collections of a block, deriving a variable for each index.
\<close>

definition setup_inputs_outputs ::
  "repeated_index \<Rightarrow> ('i, 'o) OmltBlockData \<Rightarrow> 'i list \<Rightarrow> 'o list \<Rightarrow> ('i, 'o) OmltBlockData"
where
  "setup_inputs_outputs place self input_indexes' output_indexes' =
     self\<lparr>inputs := derive_vars place input_indexes',
          outputs := derive_vars place output_indexes'\<rparr>"

text \<open>
  Modelled from the spec: which of the two index collections of a formulation is checked
  first when it is attached. Neither the spec nor the tests say, so both orders are
  modelled and \<open>build_formulation\<close> takes the choice as a parameter.
\<close>

datatype checked_first = InputsFirst | OutputsFirst

text \<open>
  Modelled from the spec: the error of \<open>build_formulation\<close> for a formulation without
  input indexes, with the message that the tests expect.
\<close>

definition no_inputs :: "('i, 'o) formulation \<Rightarrow> ('i, 'o) formulation error" where
  "no_inputs formulation =
     ValueError [Lit ''OmltBlock must have at least one input to build a formulation. '',
                 Fmt formulation, Lit '' has no inputs.'']"

text \<open>
  Modelled from the spec: the error of \<open>build_formulation\<close> for a formulation without
  output indexes, with the message that the tests expect.
\<close>

definition no_outputs :: "('i, 'o) formulation \<Rightarrow> ('i, 'o) formulation error" where
  "no_outputs formulation =
     ValueError [Lit ''OmltBlock must have at least one output to build a formulation. '',
                 Fmt formulation, Lit '' has no outputs.'']"

text \<open>
  Modelled from the spec: the error of \<open>build_formulation\<close> for a block that already has
  a formulation. The wording is not given by the spec, which only says that the error
  names the formulation.
\<close>

definition already_attached :: "('i, 'o) formulation \<Rightarrow> ('i, 'o) formulation error" where
  "already_attached formulation =
     ValueError [Lit ''OmltBlock already has a formulation. '',
                 Fmt formulation, Lit '' cannot be attached.'']"

text \<open>
  Modelled from the spec: the last step of \<open>build_formulation\<close>, once both index
  collections are known to be non-empty. A block that already has a formulation refuses
  another one and is left as it was; otherwise the block is set up with the index
  collections of the formulation, which becomes the attached one.
\<close>

definition attach ::
  "repeated_index \<Rightarrow> ('i, 'o) OmltBlockData \<Rightarrow> ('i, 'o) formulation \<Rightarrow>
     (('i, 'o) formulation error + unit) \<times> ('i, 'o) OmltBlockData"
where
  "attach place self formulation =
     (if private_formulation self \<noteq> None then
        (Inl (already_attached formulation), self)
      else
        (Inr (),
         (setup_inputs_outputs place self
            (input_indexes formulation) (output_indexes formulation))
           \<lparr>private_formulation := Some formulation\<rparr>))"

text \<open>
  Modelled from the spec: \<open>build_formulation\<close>, attaching a formulation to a block. The
  result is the outcome together with the block afterwards. It fails, leaving the block as
  it was, when the formulation has no input indexes and when it has no output indexes. An
  error is raised at the first violation that is met (the spec: immediately at the point of
  violation, with no batched validation), so a formulation with both collections empty
  gets the message of the collection that is checked first.
\<close>

definition build_formulation ::
  "checked_first \<Rightarrow> repeated_index \<Rightarrow> ('i, 'o) OmltBlockData \<Rightarrow> ('i, 'o) formulation \<Rightarrow>
     (('i, 'o) formulation error + unit) \<times> ('i, 'o) OmltBlockData"
where
  "build_formulation first place self formulation =
     (case first of
        InputsFirst \<Rightarrow>
          if length (input_indexes formulation) < 1 then
            (Inl (no_inputs formulation), self)
          else if length (output_indexes formulation) < 1 then
            (Inl (no_outputs formulation), self)
          else attach place self formulation
      | OutputsFirst \<Rightarrow>
          if length (output_indexes formulation) < 1 then
            (Inl (no_outputs formulation), self)
          else if length (input_indexes formulation) < 1 then
            (Inl (no_inputs formulation), self)
          else attach place self formulation)"

section \<open>The constraint and expression facade\<close>

text \<open>
  Modelled from the spec: the two supported backing languages and the default one (the
  facade module is not among the sources).
\<close>

definition supported_formats :: "string list" where
  "supported_formats = [''pyomo'', ''jump'']"

definition DEFAULT_MODELING_LANGUAGE :: string where
  "DEFAULT_MODELING_LANGUAGE = ''pyomo''"

text \<open>
  Modelled from the spec: a side of a constraint, as the host framework sees it: one of its
  own objects (a variable or an expression, identified by the reference \<open>'h\<close>), or a numeric
  constant. Numbers are integers, as in the tests.
\<close>

datatype 'h host_value = Obj 'h | Num int

text \<open>
  Modelled from the spec: the scalar constraint object (class \<open>OmltConstraintScalar\<close>, not
  among the sources), carrying the backing language, a sense and both sides; the sides and
  the sense are absent until the constraint comes from a comparison.
\<close>

record 'h OmltConstraintScalarData =
  format :: string
  lhs :: "'h host_value option"
  sense :: "string option"
  rhs :: "'h host_value option"

text \<open>
  Modelled from the spec: the construction of a scalar constraint in a given backing
  language, which rejects a language that is not one of the two supported ones with a
  fixed message (the text is the one the tests expect).
\<close>

definition OmltConstraintScalar :: "string \<Rightarrow> 'x error + 'h OmltConstraintScalarData" where
  "OmltConstraintScalar lang =
     (if lang \<in> set supported_formats then
        Inr \<lparr>format = lang, lhs = None, sense = None, rhs = None\<rparr>
      else
        Inl (ValueError
              [Lit ''Constraint format %s not recognized. Supported formats are 'pyomo' or 'jump'.'']))"

text \<open>
  Modelled from the spec: what the messages of an indexed container name: an index, or the
  valid index set.
\<close>

datatype 'i named = Index 'i | IndexSet "'i list"

text \<open>
  Modelled from the spec: the indexed constraint container (class \<open>OmltConstraintIndexed\<close>,
  not among the sources): its backing language, its index set, and the constraints
  assigned so far.
\<close>

record ('i, 'h) OmltConstraintIndexedData =
  indexed_format :: string
  index_set :: "'i list"
  constraints :: "'i \<rightharpoonup> 'h OmltConstraintScalarData"

text \<open>
  Modelled from the spec: the construction of an indexed container over an index set in a
  given backing language, with the same check of the language as the scalar variant.
\<close>

definition OmltConstraintIndexed ::
  "'i list \<Rightarrow> string \<Rightarrow> 'x error + ('i, 'h) OmltConstraintIndexedData"
where
  "OmltConstraintIndexed indexes lang =
     (if lang \<in> set supported_formats then
        Inr \<lparr>indexed_format = lang, index_set = indexes, constraints = Map.empty\<rparr>
      else
        Inl (ValueError
              [Lit ''Constraint format %s not recognized. Supported formats are 'pyomo' or 'jump'.'']))"

text \<open>
  Modelled from the spec: reading a container at an index (\<open>c[i]\<close>). An index outside the
  index set raises a lookup error naming the index and the index set (the text is the one
  the tests expect, the two values are the arguments that go with it); an index of the set
  reads what was assigned to it, \<open>None\<close> when nothing was.
\<close>

definition getitem ::
  "('i, 'h) OmltConstraintIndexedData \<Rightarrow> 'i \<Rightarrow>
     'i named error + 'h OmltConstraintScalarData option"
where
  "getitem self index =
     (if index \<in> set (index_set self) then Inr (constraints self index)
      else
        Inl (KeyError [Lit ''Couldn't find index %s in index set %s.'',
                       Fmt (Index index), Fmt (IndexSet (index_set self))]))"

text \<open>
  Modelled from the spec: assigning a constraint to an index of a container (\<open>c[i] = v\<close>).
  The result is the outcome together with the container afterwards; an index outside the
  index set raises the same lookup error as reading does.
\<close>

definition setitem ::
  "('i, 'h) OmltConstraintIndexedData \<Rightarrow> 'i \<Rightarrow> 'h OmltConstraintScalarData \<Rightarrow>
     ('i named error + unit) \<times> ('i, 'h) OmltConstraintIndexedData"
where
  "setitem self index val =
     (if index \<in> set (index_set self) then
        (Inr (), self\<lparr>constraints := (constraints self)(index \<mapsto> val)\<rparr>)
      else
        (Inl (KeyError [Lit ''Couldn't find index %s in index set %s.'',
                        Fmt (Index index), Fmt (IndexSet (index_set self))]), self))"

text \<open>
  Modelled from the spec: the expression facade and the variable facade (not among the
  sources), each a wrapper around one object of the host framework: the tests read it as
  \<open>_expression\<close> and \<open>_pyovar\<close>.
\<close>

record 'h OmltExpr =
  expression :: 'h

record 'h OmltScalar =
  pyovar :: 'h

text \<open>
  Modelled from the spec: the right operand of a comparison: another expression, a bare
  variable, or a numeric constant.
\<close>

datatype 'h operand = OfExpr "'h OmltExpr" | OfVar "'h OmltScalar" | OfNumber int

text \<open>
  Modelled from the spec: the normalisation of the right operand to one representation:
  the wrapped host object of an expression or of a variable, the number itself.
\<close>

fun underlying :: "'h operand \<Rightarrow> 'h host_value" where
  "underlying (OfExpr e) = Obj (expression e)"
| "underlying (OfVar v) = Obj (pyovar v)"
| "underlying (OfNumber k) = Num k"

text \<open>
  Modelled from the spec: the comparison operators of an expression, each producing a
  constraint that carries the sense, the host object of the expression as left-hand side,
  and the normalised right operand.
\<close>

definition compare ::
  "string \<Rightarrow> 'h OmltExpr \<Rightarrow> 'h operand \<Rightarrow> 'h OmltConstraintScalarData"
where
  "compare op self other =
     \<lparr>format = DEFAULT_MODELING_LANGUAGE,
      lhs = Some (Obj (expression self)),
      sense = Some op,
      rhs = Some (underlying other)\<rparr>"

definition expr_eq :: "'h OmltExpr \<Rightarrow> 'h operand \<Rightarrow> 'h OmltConstraintScalarData" where
  "expr_eq self other = compare ''=='' self other"

definition expr_le :: "'h OmltExpr \<Rightarrow> 'h operand \<Rightarrow> 'h OmltConstraintScalarData" where
  "expr_le self other = compare ''<='' self other"

definition expr_ge :: "'h OmltExpr \<Rightarrow> 'h operand \<Rightarrow> 'h OmltConstraintScalarData" where
  "expr_ge self other = compare ''>='' self other"

text \<open>
  Modelled from the spec: the numeric evaluation of a constraint (\<open>c()\<close> in the tests),
  delegated to the host framework, whose evaluation of its objects under the current
  values of the variables is the parameter \<open>current\<close>. Against a host object on the right
  it is the value of the difference of the two sides, against a constant it is the value
  of the left-hand side (the tests expect these values); a constraint without sides has
  no value.
\<close>

definition call :: "('h \<Rightarrow> int) \<Rightarrow> 'h OmltConstraintScalarData \<Rightarrow> int option" where
  "call current self =
     (case (lhs self, rhs self) of
        (Some (Obj a), Some (Obj b)) \<Rightarrow> Some (current a - current b)
      | (Some (Obj a), Some (Num k)) \<Rightarrow> Some (current a)
      | _ \<Rightarrow> None)"

section \<open>Tensor sizes\<close>

lemma filter_positive_conv:
  "filter (\<lambda>d. dim_value d \<noteq> None \<and> the (dim_value d) > 0) ds = filter positive_dim ds"
  by (rule filter_cong) (auto simp: positive_dim_def split: option.splits)

lemma tensor_size_cases:
  "tensor_size t =
     (case map (\<lambda>d. the (dim_value d)) (filter positive_dim (dims t)) of
        [] \<Rightarrow> Inl (ValueError [Lit ''Tensor '', Fmt (Tensor t),
                               Lit '' has no positive dimensions.''])
      | [v] \<Rightarrow> Inr v
      | _ # _ # _ \<Rightarrow> Inl (ValueError [Lit ''Tensor '', Fmt (Tensor t),
                                      Lit '' has multiple positive dimensions.'']))"
proof -
  define fs where "fs = filter positive_dim (dims t)"
  have "fs = [] \<or> (\<exists>x. fs = [x]) \<or> (\<exists>x y zs. fs = x # y # zs)"
    by (cases fs; cases "tl fs") auto
  then show ?thesis
    unfolding tensor_size_def Let_def filter_positive_conv
    by (fold dims_def, fold fs_def) auto
qed

lemma single_positive_value:
  assumes one: "length (filter positive_dim ds) = 1"
    and mem: "d \<in> set ds" and val: "dim_value d = Some v" and pos: "0 < v"
  shows "map (\<lambda>d. the (dim_value d)) (filter positive_dim ds) = [v]"
proof -
  from one obtain x where x: "filter positive_dim ds = [x]"
    by (cases "filter positive_dim ds") auto
  from mem val pos have "d \<in> set (filter positive_dim ds)"
    by (simp add: positive_dim_def)
  with x have "x = d" by simp
  with x val show ?thesis by simp
qed

lemma tensor_size_single:
  assumes "num_positive t = 1" "d \<in> set (dims t)" "dim_value d = Some v" "0 < v"
  shows "tensor_size t = Inr v"
  using single_positive_value [of "dims t" d v] assms
  by (simp add: tensor_size_cases num_positive_def)

lemma tensor_size_ok_iff: "(\<exists>v. tensor_size t = Inr v) \<longleftrightarrow> num_positive t = 1"
  by (auto simp: tensor_size_cases num_positive_def split: list.splits)

lemma tensor_size_error_iff: "(\<exists>e. tensor_size t = Inl e) \<longleftrightarrow> num_positive t \<noteq> 1"
  by (auto simp: tensor_size_cases num_positive_def split: list.splits)

lemma tensor_size_error_shape:
  assumes "tensor_size t = Inl e"
  shows "is_ValueError e \<and> interpolated (message e) = [Tensor t]"
  using assms by (auto simp: tensor_size_cases split: list.splits)

lemma model_num_inputs_single:
  "input (graph m) = [t] \<Longrightarrow> model_num_inputs m = tensor_size t"
  by (simp add: model_num_inputs_def)

lemma model_num_outputs_single:
  "output (graph m) = [t] \<Longrightarrow> model_num_outputs m = tensor_size t"
  by (simp add: model_num_outputs_def)

lemma model_num_inputs_error_iff:
  "(\<exists>e. model_num_inputs m = Inl e) \<longleftrightarrow>
     length (input (graph m)) \<noteq> 1 \<or> (\<exists>t. input (graph m) = [t] \<and> num_positive t \<noteq> 1)"
proof (cases "length (input (graph m)) = 1")
  case True
  then obtain t where t: "input (graph m) = [t]" by (auto simp: length_Suc_conv)
  then show ?thesis
    using tensor_size_error_iff [of t] by (simp add: model_num_inputs_single)
next
  case False
  then show ?thesis by (simp add: model_num_inputs_def)
qed

lemma model_num_outputs_error_iff:
  "(\<exists>e. model_num_outputs m = Inl e) \<longleftrightarrow>
     length (output (graph m)) \<noteq> 1 \<or> (\<exists>t. output (graph m) = [t] \<and> num_positive t \<noteq> 1)"
proof (cases "length (output (graph m)) = 1")
  case True
  then obtain t where t: "output (graph m) = [t]" by (auto simp: length_Suc_conv)
  then show ?thesis
    using tensor_size_error_iff [of t] by (simp add: model_num_outputs_single)
next
  case False
  then show ?thesis by (simp add: model_num_outputs_def)
qed

lemma model_num_inputs_error_shape:
  assumes "model_num_inputs m = Inl e"
  shows "is_ValueError e \<and>
         (interpolated (message e) = [GraphField (input (graph m))] \<and> length (input (graph m)) \<noteq> 1
          \<or> (\<exists>t. interpolated (message e) = [Tensor t] \<and> input (graph m) = [t]
                  \<and> num_positive t \<noteq> 1))"
proof (cases "length (input (graph m)) = 1")
  case True
  then obtain t where t: "input (graph m) = [t]" by (auto simp: length_Suc_conv)
  with assms have e: "tensor_size t = Inl e" by (simp add: model_num_inputs_single)
  then have "num_positive t \<noteq> 1" using tensor_size_error_iff [of t] by blast
  with tensor_size_error_shape [OF e] t show ?thesis by simp
next
  case False
  with assms show ?thesis by (auto simp: model_num_inputs_def)
qed

lemma model_num_outputs_error_shape:
  assumes "model_num_outputs m = Inl e"
  shows "is_ValueError e \<and>
         (interpolated (message e) = [GraphField (output (graph m))] \<and> length (output (graph m)) \<noteq> 1
          \<or> (\<exists>t. interpolated (message e) = [Tensor t] \<and> output (graph m) = [t]
                  \<and> num_positive t \<noteq> 1))"
proof (cases "length (output (graph m)) = 1")
  case True
  then obtain t where t: "output (graph m) = [t]" by (auto simp: length_Suc_conv)
  with assms have e: "tensor_size t = Inl e" by (simp add: model_num_outputs_single)
  then have "num_positive t \<noteq> 1" using tensor_size_error_iff [of t] by blast
  with tensor_size_error_shape [OF e] t show ?thesis by simp
next
  case False
  with assms show ?thesis by (auto simp: model_num_outputs_def)
qed

lemma init_error_cases:
  "init m sc b = Inl e \<longleftrightarrow>
     model_num_inputs m = Inl e \<or>
     (\<exists>n. model_num_inputs m = Inr n) \<and> model_num_outputs m = Inl e"
  by (auto simp: init_def split: sum.splits)

lemma sum_not_Inl_conv: "(\<nexists>e. x = Inl e) \<longleftrightarrow> (\<exists>v. x = Inr v)"
  by (cases x) auto

section \<open>Claims about the structural model wrapper\<close>

text \<open>
  C1. When the graph of the model declares exactly one input tensor and exactly one output
  tensor, and each of the two has exactly one positive-valued dimension, the construction
  of the wrapper succeeds, \<open>n_inputs\<close> is the value of the positive dimension of the input
  tensor and \<open>n_outputs\<close> is the value of the positive dimension of the output tensor.
\<close>

theorem init_arities:
  assumes "input (graph m) = [t_in]" and "output (graph m) = [t_out]"
    and "num_positive t_in = 1" and "d_in \<in> set (dims t_in)"
    and "dim_value d_in = Some v_in" and "0 < v_in"
    and "num_positive t_out = 1" and "d_out \<in> set (dims t_out)"
    and "dim_value d_out = Some v_out" and "0 < v_out"
  shows "\<exists>w. init m sc b = Inr w \<and> n_inputs w = v_in \<and> n_outputs w = v_out"
proof -
  have "model_num_inputs m = Inr v_in"
    using assms by (simp add: model_num_inputs_single tensor_size_single)
  moreover have "model_num_outputs m = Inr v_out"
    using assms by (simp add: model_num_outputs_single tensor_size_single)
  ultimately show ?thesis
    by (simp add: init_def n_inputs_def n_outputs_def)
qed

theorem init_arities_witness:
  "\<exists>w. init (mk_model [mk_tensor ''float_input'' [Some 0, Some 4]]
                      [mk_tensor ''variable'' [None, Some 1]])
             (None :: unit option) (None :: unit option) = Inr w
       \<and> n_inputs w = 4 \<and> n_outputs w = 1"
  using init_arities
    [of "mk_model [mk_tensor ''float_input'' [Some 0, Some 4]]
                  [mk_tensor ''variable'' [None, Some 1]]"
        "mk_tensor ''float_input'' [Some 0, Some 4]"
        "mk_tensor ''variable'' [None, Some 1]"
        "\<lparr>dim_value = Some 4\<rparr>" 4 "\<lparr>dim_value = Some 1\<rparr>" 1
        "None :: unit option" "None :: unit option"]
  by (simp add: mk_model_def mk_tensor_def num_positive_def dims_def positive_dim_def)

text \<open>
  C2. The construction of the wrapper fails exactly when the graph declares a number of
  input tensors other than one, or a number of output tensors other than one, or the single
  input tensor or the single output tensor has no positive-valued dimension or several of
  them. The failure is the result of the construction itself, it is a \<open>ValueError\<close>, and
  its message interpolates the offending value: the input or output field whose length is
  not one, or the tensor whose number of positive dimensions is not one.
\<close>

theorem init_error_iff:
  "((\<exists>e. init m sc b = Inl e) \<longleftrightarrow>
      length (input (graph m)) \<noteq> 1 \<or> length (output (graph m)) \<noteq> 1 \<or>
      (\<exists>t. input (graph m) = [t] \<and> num_positive t \<noteq> 1) \<or>
      (\<exists>t. output (graph m) = [t] \<and> num_positive t \<noteq> 1))
   \<and> (\<forall>e. init m sc b = Inl e \<longrightarrow>
         is_ValueError e \<and>
         (interpolated (message e) = [GraphField (input (graph m))]
            \<and> length (input (graph m)) \<noteq> 1
          \<or> interpolated (message e) = [GraphField (output (graph m))]
            \<and> length (output (graph m)) \<noteq> 1
          \<or> (\<exists>t. interpolated (message e) = [Tensor t] \<and> num_positive t \<noteq> 1
                 \<and> (input (graph m) = [t] \<or> output (graph m) = [t]))))"
proof (intro conjI allI impI)
  have "(\<exists>e. init m sc b = Inl e) \<longleftrightarrow>
          (\<exists>e. model_num_inputs m = Inl e) \<or> (\<exists>e. model_num_outputs m = Inl e)"
    unfolding init_error_cases using sum_not_Inl_conv [of "model_num_inputs m"] by blast
  then show "(\<exists>e. init m sc b = Inl e) \<longleftrightarrow>
      length (input (graph m)) \<noteq> 1 \<or> length (output (graph m)) \<noteq> 1 \<or>
      (\<exists>t. input (graph m) = [t] \<and> num_positive t \<noteq> 1) \<or>
      (\<exists>t. output (graph m) = [t] \<and> num_positive t \<noteq> 1)"
    unfolding model_num_inputs_error_iff model_num_outputs_error_iff by blast
next
  fix e assume "init m sc b = Inl e"
  then show "is_ValueError e" 
    using model_num_inputs_error_shape [of m e] model_num_outputs_error_shape [of m e]
    unfolding init_error_cases by blast
next
  fix e assume "init m sc b = Inl e"
  then consider "model_num_inputs m = Inl e" | "model_num_outputs m = Inl e"
    unfolding init_error_cases by blast
  then show "interpolated (message e) = [GraphField (input (graph m))]
            \<and> length (input (graph m)) \<noteq> 1
          \<or> interpolated (message e) = [GraphField (output (graph m))]
            \<and> length (output (graph m)) \<noteq> 1
          \<or> (\<exists>t. interpolated (message e) = [Tensor t] \<and> num_positive t \<noteq> 1
                 \<and> (input (graph m) = [t] \<or> output (graph m) = [t]))"
  proof cases
    case 1
    from model_num_inputs_error_shape [OF 1] show ?thesis by blast
  next
    case 2
    from model_num_outputs_error_shape [OF 2] show ?thesis by blast
  qed
qed

theorem init_error_iff_witness:
  "init (mk_model [mk_tensor ''float_input'' [Some 2, Some 4]]
                  [mk_tensor ''variable'' [None, Some 1]])
        (None :: unit option) (None :: unit option)
     = Inl (ValueError [Lit ''Tensor '',
                        Fmt (Tensor (mk_tensor ''float_input'' [Some 2, Some 4])),
                        Lit '' has multiple positive dimensions.''])
   \<and> is_ValueError (ValueError [Lit ''Tensor '',
                        Fmt (Tensor (mk_tensor ''float_input'' [Some 2, Some 4])),
                        Lit '' has multiple positive dimensions.''] :: shown error)
   \<and> num_positive (mk_tensor ''float_input'' [Some 2, Some 4]) = 2"
  using init_error_iff
    [of "mk_model [mk_tensor ''float_input'' [Some 2, Some 4]]
                  [mk_tensor ''variable'' [None, Some 1]]"
        "None :: unit option" "None :: unit option"]
  by (simp add: init_def model_num_inputs_def model_num_outputs_def tensor_size_def
      mk_model_def mk_tensor_def num_positive_def dims_def positive_dim_def)

text \<open>
  C9. After the construction of a wrapper, assigning a scaling object through the setter
  makes the getter return that object, and leaves \<open>onnx_model\<close>, \<open>n_inputs\<close>, \<open>n_outputs\<close>
  and \<open>scaled_input_bounds\<close> as they were at construction.
\<close>

theorem set_scaling_object_frame:
  assumes "init m sc b = Inr w"
  shows "scaling_object (set_scaling_object w s) = s
       \<and> onnx_model (set_scaling_object w s) = onnx_model w
       \<and> n_inputs (set_scaling_object w s) = n_inputs w
       \<and> n_outputs (set_scaling_object w s) = n_outputs w
       \<and> scaled_input_bounds (set_scaling_object w s) = scaled_input_bounds w
       \<and> onnx_model w = m \<and> scaling_object w = sc \<and> scaled_input_bounds w = b"
  using assms
  by (auto simp: init_def set_scaling_object_def scaling_object_def onnx_model_def
      n_inputs_def n_outputs_def scaled_input_bounds_def split: sum.splits)

theorem set_scaling_object_frame_witness:
  "\<exists>w. init (mk_model [mk_tensor ''float_input'' [Some 0, Some 4]]
                      [mk_tensor ''variable'' [None, Some 1]])
             (None :: nat option) (Some [(0::int, 1::int)]) = Inr w
       \<and> scaling_object (set_scaling_object w (Some 5)) = Some 5
       \<and> n_inputs (set_scaling_object w (Some 5)) = 4
       \<and> n_outputs (set_scaling_object w (Some 5)) = 1
       \<and> scaled_input_bounds (set_scaling_object w (Some 5)) = Some [(0, 1)]"
proof -
  let ?m = "mk_model [mk_tensor ''float_input'' [Some 0, Some 4]]
                     [mk_tensor ''variable'' [None, Some 1]]"
  let ?w = "\<lparr>private_model = ?m, private_n_inputs = 4, private_n_outputs = 1,
            private_scaling_object = (None :: nat option),
            private_scaled_input_bounds = Some [(0::int, 1::int)]\<rparr>"
  have c: "init ?m (None :: nat option) (Some [(0::int, 1::int)]) = Inr ?w"
    by (simp add: init_def model_num_inputs_def model_num_outputs_def tensor_size_def
        mk_model_def mk_tensor_def)
  from set_scaling_object_frame [OF c, of "Some 5"] c show ?thesis
    by (simp add: n_inputs_def n_outputs_def)
qed

text \<open>
  C10. A tensor whose shape has one dimension with a positive value, and otherwise only
  dimensions whose value is zero, negative or absent, has the positive value as its size:
  the other dimensions are ignored and no error is raised.
\<close>

theorem tensor_size_ignores_nonpositive:
  assumes "dims t = before @ d # after"
    and "dim_value d = Some v" and "0 < v"
    and "\<forall>x \<in> set (before @ after). \<forall>u. dim_value x = Some u \<longrightarrow> u \<le> 0"
  shows "tensor_size t = Inr v"
proof -
  have "filter positive_dim (before @ after) = []"
    using assms(4) by (fastforce simp: filter_empty_conv positive_dim_def split: option.splits)
  then have "filter positive_dim (dims t) = [d]"
    using assms(1-3) by (simp add: positive_dim_def)
  then show ?thesis
    using assms(2) by (simp add: tensor_size_cases)
qed

theorem tensor_size_ignores_nonpositive_witness:
  "tensor_size (mk_tensor ''float_input'' [Some 0, Some 7, Some (- 1), None]) = Inr 7"
  using tensor_size_ignores_nonpositive
    [of "mk_tensor ''float_input'' [Some 0, Some 7, Some (- 1), None]"
        "[\<lparr>dim_value = Some 0\<rparr>]" "\<lparr>dim_value = Some 7\<rparr>"
        "[\<lparr>dim_value = Some (- 1)\<rparr>, \<lparr>dim_value = None\<rparr>]" 7]
  by (simp add: mk_tensor_def dims_def)

section \<open>Ordered mappings\<close>


lemma distinct_keys_insert_key:
  "distinct (keys m) \<Longrightarrow> distinct (keys (insert_key place k v m))"
  by (cases place) (auto simp: keys_def distinct_map_filter)



lemma distinct_keys_foldl:
  "distinct (keys m0) \<Longrightarrow> distinct (keys (foldl (\<lambda>m k. insert_key place k (f k) m) m0 ks))"
  by (induction ks arbitrary: m0) (simp_all add: distinct_keys_insert_key)

lemma distinct_keys_derive_vars: "distinct (keys (derive_vars place ks))"
  unfolding derive_vars_def by (rule distinct_keys_foldl) (simp add: keys_def)

section \<open>Claims about the block container\<close>







text \<open>
  C6. When a block already has an attached formulation, attaching a formulation fails with
  an error whose message names the formulation that was to be attached, and the block is
  left as it was: it keeps the formulation attached first.
\<close>

theorem build_formulation_attached_once:
  assumes "private_formulation b = Some f0"
  shows "\<exists>e. fst (build_formulation first place b f) = Inl e
           \<and> f \<in> set (interpolated (message e))
           \<and> snd (build_formulation first place b f) = b
           \<and> private_formulation (snd (build_formulation first place b f)) = Some f0"
  using assms
  by (cases first)
    (simp_all add: build_formulation_def attach_def no_inputs_def no_outputs_def
      already_attached_def)

theorem build_formulation_attached_once_witness:
  "fst (build_formulation InputsFirst KeepsFirstPlace
          (OmltBlock :: (string, int) OmltBlockData)
          \<lparr>label = ''first'', input_indexes = [''A''], output_indexes = [1]\<rparr>) = Inr ()
   \<and> (\<exists>e. fst (build_formulation InputsFirst KeepsFirstPlace
                (snd (build_formulation InputsFirst KeepsFirstPlace
                       (OmltBlock :: (string, int) OmltBlockData)
                       \<lparr>label = ''first'', input_indexes = [''A''], output_indexes = [1]\<rparr>))
                \<lparr>label = ''second'', input_indexes = [''B''], output_indexes = [2]\<rparr>) = Inl e
          \<and> \<lparr>label = ''second'', input_indexes = [''B''], output_indexes = [2]\<rparr>
              \<in> set (interpolated (message e)))
   \<and> private_formulation
        (snd (build_formulation InputsFirst KeepsFirstPlace
                (snd (build_formulation InputsFirst KeepsFirstPlace
                       (OmltBlock :: (string, int) OmltBlockData)
                       \<lparr>label = ''first'', input_indexes = [''A''], output_indexes = [1]\<rparr>))
                \<lparr>label = ''second'', input_indexes = [''B''], output_indexes = [2]\<rparr>))
       = Some \<lparr>label = ''first'', input_indexes = [''A''], output_indexes = [1]\<rparr>"
proof -
  let ?f1 = "\<lparr>label = ''first'', input_indexes = [''A''], output_indexes = [1::int]\<rparr>"
  let ?f2 = "\<lparr>label = ''second'', input_indexes = [''B''], output_indexes = [2::int]\<rparr>"
  let ?b1 = "snd (build_formulation InputsFirst KeepsFirstPlace
                    (OmltBlock :: (string, int) OmltBlockData) ?f1)"
  have ok: "fst (build_formulation InputsFirst KeepsFirstPlace
                   (OmltBlock :: (string, int) OmltBlockData) ?f1) = Inr ()"
    by (simp add: build_formulation_def attach_def OmltBlock_def)
  have att: "private_formulation ?b1 = Some ?f1"
    by (simp add: build_formulation_def attach_def OmltBlock_def)
  from build_formulation_attached_once [OF att, of InputsFirst KeepsFirstPlace ?f2] ok
  show ?thesis by auto
qed

section \<open>Claims about the constraint and expression facade\<close>

text \<open>
  C4. For an expression on the left and an expression, a variable or a numeric constant on
  the right, \<open>==\<close> and \<open>\<le>\<close> produce a constraint whose sense is \<open>"=="\<close> and \<open>"<="\<close>
  respectively, whose left-hand side is the very host object wrapped by the expression,
  whose right-hand side is the host object wrapped by the right operand (or the constant),
  and whose value under the current values of the variables is the value of the difference
  of the two sides (against a constant: the value of the expression).
\<close>

theorem comparison_builds_constraint:
  "sense (expr_eq e other) = Some ''=='' \<and> sense (expr_le e other) = Some ''<=''
   \<and> lhs (expr_eq e other) = Some (Obj (expression e))
   \<and> lhs (expr_le e other) = Some (Obj (expression e))
   \<and> rhs (expr_eq e other) = rhs (expr_le e other)
   \<and> rhs (expr_le e other) =
       Some (case other of OfExpr e' \<Rightarrow> Obj (expression e')
                         | OfVar v \<Rightarrow> Obj (pyovar v)
                         | OfNumber k \<Rightarrow> Num k)
   \<and> call current (expr_eq e other) = call current (expr_le e other)
   \<and> call current (expr_le e other) =
       Some (case other of OfExpr e' \<Rightarrow> current (expression e) - current (expression e')
                         | OfVar v \<Rightarrow> current (expression e) - current (pyovar v)
                         | OfNumber k \<Rightarrow> current (expression e))"
  by (cases other) (simp_all add: expr_eq_def expr_le_def compare_def call_def)

text \<open>
  The scenario of the tests: the host objects are numbered, \<open>0\<close> is the expression of
  \<open>e1 = v1 + 4\<close> (value 10), \<open>1\<close> that of \<open>e2 = v2 + 4\<close> (value 7), \<open>2\<close> the variable
  \<open>v2\<close> (value 3).
\<close>

theorem comparison_builds_constraint_witness:
  "call (\<lambda>h::nat. if h = 0 then 10 else if h = 1 then 7 else 3)
        (expr_le \<lparr>expression = 0\<rparr> (OfExpr \<lparr>expression = 1\<rparr>)) = Some 3
   \<and> call (\<lambda>h::nat. if h = 0 then 10 else if h = 1 then 7 else 3)
        (expr_le \<lparr>expression = 0\<rparr> (OfVar \<lparr>pyovar = 2\<rparr>)) = Some 7
   \<and> call (\<lambda>h::nat. if h = 0 then 10 else if h = 1 then 7 else 3)
        (expr_le \<lparr>expression = 0\<rparr> (OfNumber 4)) = Some 10
   \<and> lhs (expr_eq \<lparr>expression = 0::nat\<rparr> (OfVar \<lparr>pyovar = 2\<rparr>)) = Some (Obj 0)
   \<and> rhs (expr_le \<lparr>expression = 0::nat\<rparr> (OfNumber 4)) = Some (Num 4)"
  using
    comparison_builds_constraint
      [of "\<lparr>expression = 0::nat\<rparr>" "OfExpr \<lparr>expression = 1\<rparr>"
          "\<lambda>h::nat. if h = 0 then 10 else if h = 1 then 7 else 3"]
    comparison_builds_constraint
      [of "\<lparr>expression = 0::nat\<rparr>" "OfVar \<lparr>pyovar = 2\<rparr>"
          "\<lambda>h::nat. if h = 0 then 10 else if h = 1 then 7 else 3"]
    comparison_builds_constraint
      [of "\<lparr>expression = 0::nat\<rparr>" "OfNumber 4"
          "\<lambda>h::nat. if h = 0 then 10 else if h = 1 then 7 else 3"]
  by simp

text \<open>
  C7. For every backing-language string other than \<open>"pyomo"\<close> and \<open>"jump"\<close>, the
  construction of a scalar constraint and that of an indexed constraint (over any index
  set) both raise a \<open>ValueError\<close> with the fixed message that enumerates the two supported
  formats.
\<close>

theorem constraint_invalid_lang:
  assumes "lang \<noteq> ''pyomo''" and "lang \<noteq> ''jump''"
  shows "OmltConstraintScalar lang =
           Inl (ValueError
                 [Lit ''Constraint format %s not recognized. Supported formats are 'pyomo' or 'jump'.''])
       \<and> OmltConstraintIndexed indexes lang =
           Inl (ValueError
                 [Lit ''Constraint format %s not recognized. Supported formats are 'pyomo' or 'jump'.''])"
  using assms
  by (simp add: OmltConstraintScalar_def OmltConstraintIndexed_def supported_formats_def)

theorem constraint_invalid_lang_witness:
  "(OmltConstraintScalar ''test'' :: unit error + nat OmltConstraintScalarData) =
           Inl (ValueError
                 [Lit ''Constraint format %s not recognized. Supported formats are 'pyomo' or 'jump'.''])
   \<and> (OmltConstraintIndexed [0, 1, 2 :: int] ''test''
        :: unit error + (int, nat) OmltConstraintIndexedData) =
           Inl (ValueError
                 [Lit ''Constraint format %s not recognized. Supported formats are 'pyomo' or 'jump'.''])"
  using constraint_invalid_lang [of "''test''" "[0, 1, 2 :: int]"]
  by simp

text \<open>
  C8. For an indexed constraint container and an index that is not in its index set, both
  reading the container at that index and assigning a constraint to that index raise a
  \<open>KeyError\<close> that names the index and the index set; the failed assignment leaves the
  container as it was.
\<close>

theorem constraint_invalid_index:
  assumes "index \<notin> set (index_set c)"
  shows "getitem c index =
           Inl (KeyError [Lit ''Couldn't find index %s in index set %s.'',
                          Fmt (Index index), Fmt (IndexSet (index_set c))])
       \<and> setitem c index val =
           (Inl (KeyError [Lit ''Couldn't find index %s in index set %s.'',
                           Fmt (Index index), Fmt (IndexSet (index_set c))]), c)"
  using assms by (simp add: getitem_def setitem_def)

theorem constraint_invalid_index_witness:
  "\<exists>c. (OmltConstraintIndexed [0, 1, 2 :: int] DEFAULT_MODELING_LANGUAGE
          :: unit error + (int, nat) OmltConstraintIndexedData) = Inr c
      \<and> getitem c 4 =
           Inl (KeyError [Lit ''Couldn't find index %s in index set %s.'',
                          Fmt (Index 4), Fmt (IndexSet [0, 1, 2])])
      \<and> setitem c 4 (expr_ge \<lparr>expression = 0\<rparr> (OfNumber 0)) =
           (Inl (KeyError [Lit ''Couldn't find index %s in index set %s.'',
                           Fmt (Index 4), Fmt (IndexSet [0, 1, 2])]), c)"
proof -
  let ?c = "\<lparr>indexed_format = ''pyomo'', index_set = [0, 1, 2 :: int],
            constraints = (Map.empty :: int \<rightharpoonup> nat OmltConstraintScalarData)\<rparr>"
  have built: "(OmltConstraintIndexed [0, 1, 2 :: int] DEFAULT_MODELING_LANGUAGE
          :: unit error + (int, nat) OmltConstraintIndexedData) = Inr ?c"
    by (simp add: OmltConstraintIndexed_def DEFAULT_MODELING_LANGUAGE_def
        supported_formats_def)
  have out: "(4::int) \<notin> set (index_set ?c)" by simp
  from constraint_invalid_index [OF out, of "expr_ge \<lparr>expression = 0\<rparr> (OfNumber 0)"] built
  show ?thesis by simp
qed

end
